theory Spec2Isabelle
  imports Complex_Main "HOL-Library.AList"
begin

section \<open>Scalping bot: indicator engine, signal evaluator, consensus\<close>

text \<open>
  A shallow embedding of \<^verbatim>\<open>src/bot.py\<close>: \<^verbatim>\<open>compute_indicators\<close>,
  \<^verbatim>\<open>evaluate_conditions\<close> and \<^verbatim>\<open>analyze_symbol\<close>.

  Numbers. The source computes in IEEE doubles through pandas. A double is a
  \<open>double\<close>: \<open>Num x\<close> is the number \<open>x\<close>, \<open>NaN\<close> is not-a-number, \<open>PInf\<close> and
  \<open>NInf\<close> are the two infinities. Arithmetic on numbers is exact real arithmetic:
  rounding and overflow are not modelled, and there is one zero (a division by zero
  takes the sign of its infinity from the numerator). NaN propagates through
  arithmetic and makes every comparison false, as in Python. A pandas Series of
  doubles is a list of such values.
\<close>

datatype double = NaN | Num real | PInf | NInf

type_synonym series = "double list"

subsection \<open>Configuration constants\<close>



definition EMA_FAST :: nat where "EMA_FAST = 7"
definition EMA_SLOW :: nat where "EMA_SLOW = 25"
definition RSI_WINDOW :: nat where "RSI_WINDOW = 7"
definition ADX_WINDOW :: nat where "ADX_WINDOW = 14"
definition BB_WINDOW :: nat where "BB_WINDOW = 20"
definition VOL_WINDOW :: nat where "VOL_WINDOW = 20"
definition MACD_FAST :: nat where "MACD_FAST = 12"
definition MACD_SLOW :: nat where "MACD_SLOW = 26"
definition MACD_SIGNAL :: nat where "MACD_SIGNAL = 9"
definition ADX_THRESHOLD :: real where "ADX_THRESHOLD = 25"
definition RSI_BUY_MIN :: real where "RSI_BUY_MIN = 50"
definition RSI_BUY_MAX :: real where "RSI_BUY_MAX = 65"
definition RSI_SELL_MIN :: real where "RSI_SELL_MIN = 35"
definition RSI_SELL_MAX :: real where "RSI_SELL_MAX = 50"

subsection \<open>Comparisons of doubles\<close>

text \<open>Python's \<^verbatim>\<open><\<close> and \<^verbatim>\<open><=\<close> on doubles: false as soon as one side is NaN.
  \<^verbatim>\<open>a > b\<close> is \<open>fl_lt b a\<close> and \<^verbatim>\<open>a >= b\<close> is \<open>fl_le b a\<close>.\<close>

fun fl_lt :: "double \<Rightarrow> double \<Rightarrow> bool" where
  "fl_lt (Num x) (Num y) = (x < y)"
| "fl_lt NaN b = False"
| "fl_lt a NaN = False"
| "fl_lt a NInf = False"
| "fl_lt PInf b = False"
| "fl_lt a b = True"

fun fl_le :: "double \<Rightarrow> double \<Rightarrow> bool" where
  "fl_le (Num x) (Num y) = (x \<le> y)"
| "fl_le NaN b = False"
| "fl_le a NaN = False"
| "fl_le NInf b = True"
| "fl_le a PInf = True"
| "fl_le a b = False"

subsection \<open>Rows and frames\<close>

text \<open>
  The columns of the data frame that \<^verbatim>\<open>compute_indicators\<close> returns and that a
  consumer reads: the four numeric input columns and the nine indicator columns. The
  record is polymorphic in the cell: a frame holds a Series in each field, the row
  \<^verbatim>\<open>df.iloc[-1]\<close> holds one double in each field. The helper columns the source also
  stores in the frame (\<^verbatim>\<open>tr0\<close>, \<^verbatim>\<open>TR\<close>, \<^verbatim>\<open>+dm\<close>, \<^verbatim>\<open>+di\<close>, \<^verbatim>\<open>DX\<close>, ...) are the
  definitions \<open>tr0_col\<close>, \<open>TR_col\<close>, ... below; nothing reads them from the frame.
\<close>

record 'a columns =
  high :: 'a
  low :: 'a
  close :: 'a
  volume :: 'a
  EMA_fast :: 'a
  EMA_slow :: 'a
  MACD :: 'a
  MACD_signal :: 'a
  RSI :: 'a
  ADX :: 'a
  bb_upper :: 'a
  bb_lower :: 'a
  vol_ma :: 'a

type_synonym frame = "series columns"
type_synonym row = "double columns"

datatype signal = BUY | SELL | NEUTRAL

subsection \<open>The signal evaluator\<close>

text \<open>The six BUY tests and the six SELL tests of \<^verbatim>\<open>evaluate_conditions\<close>, in the
  order of the two \<^verbatim>\<open>all([...])\<close> lists.\<close>

definition ema_buy :: "row \<Rightarrow> bool" where
  "ema_buy latest = fl_lt (EMA_slow latest) (EMA_fast latest)"
definition ema_sell :: "row \<Rightarrow> bool" where
  "ema_sell latest = fl_lt (EMA_fast latest) (EMA_slow latest)"
definition macd_buy :: "row \<Rightarrow> bool" where
  "macd_buy latest = fl_lt (MACD_signal latest) (MACD latest)"
definition macd_sell :: "row \<Rightarrow> bool" where
  "macd_sell latest = fl_lt (MACD latest) (MACD_signal latest)"
definition rsi_buy :: "row \<Rightarrow> bool" where
  "rsi_buy latest = (fl_le (Num RSI_BUY_MIN) (RSI latest) \<and> fl_le (RSI latest) (Num RSI_BUY_MAX))"
definition rsi_sell :: "row \<Rightarrow> bool" where
  "rsi_sell latest = (fl_le (Num RSI_SELL_MIN) (RSI latest) \<and> fl_le (RSI latest) (Num RSI_SELL_MAX))"
definition adx_ok :: "row \<Rightarrow> bool" where
  "adx_ok latest = fl_le (Num ADX_THRESHOLD) (ADX latest)"
definition vol_ok :: "row \<Rightarrow> bool" where
  "vol_ok latest = fl_le (vol_ma latest) (volume latest)"
definition bb_buy :: "row \<Rightarrow> bool" where
  "bb_buy latest = fl_lt (bb_upper latest) (close latest)"
definition bb_sell :: "row \<Rightarrow> bool" where
  "bb_sell latest = fl_lt (close latest) (bb_lower latest)"

definition evaluate_conditions :: "row \<Rightarrow> signal" where
  "evaluate_conditions latest =
     (if list_all id [ema_buy latest, macd_buy latest, rsi_buy latest,
                      adx_ok latest, vol_ok latest, bb_buy latest] then BUY
      else if list_all id [ema_sell latest, macd_sell latest, rsi_sell latest,
                           adx_ok latest, vol_ok latest, bb_sell latest] then SELL
      else NEUTRAL)"

text \<open>The evaluator with the two tests in the other order, SELL first: the variant
  that claim C10 compares the source's order with.\<close>

definition evaluate_conditions_sell_first :: "row \<Rightarrow> signal" where
  "evaluate_conditions_sell_first latest =
     (if list_all id [ema_sell latest, macd_sell latest, rsi_sell latest,
                      adx_ok latest, vol_ok latest, bb_sell latest] then SELL
      else if list_all id [ema_buy latest, macd_buy latest, rsi_buy latest,
                           adx_ok latest, vol_ok latest, bb_buy latest] then BUY
      else NEUTRAL)"

text \<open>A row for the examples: every field the same number.\<close>

definition const_row :: "real \<Rightarrow> row" where
  "const_row x = \<lparr>high = Num x, low = Num x, close = Num x, volume = Num x,
     EMA_fast = Num x, EMA_slow = Num x, MACD = Num x, MACD_signal = Num x,
     RSI = Num x, ADX = Num x, bb_upper = Num x, bb_lower = Num x, vol_ma = Num x\<rparr>"

text \<open>A row on which all six BUY tests hold, and its mirror image for SELL.\<close>

definition buy_row :: row where
  "buy_row = \<lparr>high = Num 12, low = Num 9, close = Num 11, volume = Num 5,
     EMA_fast = Num 10, EMA_slow = Num 9, MACD = Num 2, MACD_signal = Num 1,
     RSI = Num 60, ADX = Num 30, bb_upper = Num 10, bb_lower = Num 8, vol_ma = Num 4\<rparr>"

definition sell_row :: row where
  "sell_row = \<lparr>high = Num 12, low = Num 6, close = Num 7, volume = Num 5,
     EMA_fast = Num 9, EMA_slow = Num 10, MACD = Num 1, MACD_signal = Num 2,
     RSI = Num 40, ADX = Num 30, bb_upper = Num 10, bb_lower = Num 8, vol_ma = Num 4\<rparr>"

section \<open>The indicator engine\<close>

subsection \<open>Arithmetic on doubles and on Series\<close>

text \<open>IEEE addition, negation, multiplication and division, exact on numbers.
  \<open>inf - inf\<close>, \<open>0 * inf\<close>, \<open>0 / 0\<close> and \<open>inf / inf\<close> are NaN; a number other
  than 0 divided by 0 is an infinity.\<close>

fun d_neg :: "double \<Rightarrow> double" where
  "d_neg NaN = NaN"
| "d_neg (Num x) = Num (- x)"
| "d_neg PInf = NInf"
| "d_neg NInf = PInf"

fun d_add :: "double \<Rightarrow> double \<Rightarrow> double" where
  "d_add (Num x) (Num y) = Num (x + y)"
| "d_add NaN b = NaN"
| "d_add a NaN = NaN"
| "d_add PInf NInf = NaN"
| "d_add NInf PInf = NaN"
| "d_add PInf b = PInf"
| "d_add NInf b = NInf"
| "d_add a PInf = PInf"
| "d_add a NInf = NInf"

fun d_sub :: "double \<Rightarrow> double \<Rightarrow> double" where
  "d_sub (Num x) (Num y) = Num (x - y)"
| "d_sub a b = d_add a (d_neg b)"

text \<open>An infinity with the sign of a number, and with the opposite sign.\<close>

fun same_sign :: "double \<Rightarrow> real \<Rightarrow> double" where
  "same_sign a s = (if 0 \<le> s then a else d_neg a)"

fun d_mul :: "double \<Rightarrow> double \<Rightarrow> double" where
  "d_mul (Num x) (Num y) = Num (x * y)"
| "d_mul NaN b = NaN"
| "d_mul a NaN = NaN"
| "d_mul (Num x) b = (if x = 0 then NaN else same_sign b x)"
| "d_mul a (Num y) = (if y = 0 then NaN else same_sign a y)"
| "d_mul PInf b = b"
| "d_mul NInf b = d_neg b"

fun d_div :: "double \<Rightarrow> double \<Rightarrow> double" where
  "d_div (Num x) (Num y) =
     (if y \<noteq> 0 then Num (x / y)
      else if x = 0 then NaN else if 0 < x then PInf else NInf)"
| "d_div NaN b = NaN"
| "d_div a NaN = NaN"
| "d_div (Num x) b = Num 0"
| "d_div a (Num y) = same_sign a y"
| "d_div a b = NaN"

fun d_abs :: "double \<Rightarrow> double" where
  "d_abs NaN = NaN"
| "d_abs (Num x) = Num \<bar>x\<bar>"
| "d_abs a = PInf"

definition s_add :: "series \<Rightarrow> series \<Rightarrow> series" where
  "s_add xs ys = map2 d_add xs ys"

definition s_sub :: "series \<Rightarrow> series \<Rightarrow> series" where
  "s_sub xs ys = map2 d_sub xs ys"

definition s_div :: "series \<Rightarrow> series \<Rightarrow> series" where
  "s_div xs ys = map2 d_div xs ys"

text \<open>\<^verbatim>\<open>k * s\<close>, \<^verbatim>\<open>k + s\<close>, \<^verbatim>\<open>k - s\<close> and \<^verbatim>\<open>k / s\<close> with a scalar \<open>k\<close>.\<close>

definition s_scale :: "real \<Rightarrow> series \<Rightarrow> series" where
  "s_scale k xs = map (d_mul (Num k)) xs"

definition s_plus_const :: "real \<Rightarrow> series \<Rightarrow> series" where
  "s_plus_const k xs = map (d_add (Num k)) xs"

definition s_const_minus :: "real \<Rightarrow> series \<Rightarrow> series" where
  "s_const_minus k xs = map (d_sub (Num k)) xs"

definition s_const_div :: "real \<Rightarrow> series \<Rightarrow> series" where
  "s_const_div k xs = map (d_div (Num k)) xs"

definition s_abs :: "series \<Rightarrow> series" where
  "s_abs xs = map d_abs xs"

text \<open>\<^verbatim>\<open>s.shift()\<close>: every value moves one row down, NaN enters at row 0.
  \<^verbatim>\<open>s.diff()\<close> is \<^verbatim>\<open>s - s.shift()\<close>.\<close>

definition s_shift :: "series \<Rightarrow> series" where
  "s_shift xs = (if xs = [] then [] else NaN # butlast xs)"

definition s_diff :: "series \<Rightarrow> series" where
  "s_diff xs = s_sub xs (s_shift xs)"

text \<open>\<^verbatim>\<open>s.clip(lower=0)\<close> and \<^verbatim>\<open>np.maximum(s, 0)\<close> agree: the larger of the value
  and 0, NaN staying NaN. \<^verbatim>\<open>s.clip(upper=0)\<close> is the smaller.\<close>

fun d_max0 :: "double \<Rightarrow> double" where
  "d_max0 NaN = NaN"
| "d_max0 (Num x) = Num (max 0 x)"
| "d_max0 PInf = PInf"
| "d_max0 NInf = Num 0"

fun d_min0 :: "double \<Rightarrow> double" where
  "d_min0 NaN = NaN"
| "d_min0 (Num x) = Num (min 0 x)"
| "d_min0 PInf = Num 0"
| "d_min0 NInf = NInf"

definition clip_lower0 :: "series \<Rightarrow> series" where
  "clip_lower0 xs = map d_max0 xs"

definition clip_upper0 :: "series \<Rightarrow> series" where
  "clip_upper0 xs = map d_min0 xs"

text \<open>\<^verbatim>\<open>s.replace(0, np.nan)\<close> and \<^verbatim>\<open>s.fillna(c)\<close>. An infinity is neither 0 nor
  missing.\<close>

definition replace0_nan :: "series \<Rightarrow> series" where
  "replace0_nan xs = map (\<lambda>v. if v = Num 0 then NaN else v) xs"

definition fillna :: "real \<Rightarrow> series \<Rightarrow> series" where
  "fillna c xs = map (\<lambda>v. if v = NaN then Num c else v) xs"

text \<open>\<^verbatim>\<open>s.fillna(method="bfill")\<close>: a NaN takes the next valid value below it; a NaN
  with no valid value below stays NaN.\<close>

fun bfill :: "series \<Rightarrow> series" where
  "bfill [] = []"
| "bfill (NaN # xs) = (case bfill xs of [] \<Rightarrow> NaN | y # _ \<Rightarrow> y) # bfill xs"
| "bfill (x # xs) = x # bfill xs"

text \<open>\<^verbatim>\<open>df[[a, b, c]].max(axis=1)\<close>: the row-wise maximum, NaN cells skipped.\<close>

fun nanmax :: "double \<Rightarrow> double \<Rightarrow> double" where
  "nanmax NaN b = b"
| "nanmax a NaN = a"
| "nanmax a b = (if fl_le a b then b else a)"

definition rowmax3 :: "series \<Rightarrow> series \<Rightarrow> series \<Rightarrow> series" where
  "rowmax3 xs ys zs = map (\<lambda>(x, y, z). nanmax x (nanmax y z)) (zip xs (zip ys zs))"

text \<open>\<^verbatim>\<open>a > b\<close> on two Series, and \<^verbatim>\<open>np.where(cond, a, b)\<close>.\<close>

definition s_gt :: "series \<Rightarrow> series \<Rightarrow> bool list" where
  "s_gt xs ys = map2 (\<lambda>x y. fl_lt y x) xs ys"

definition np_where :: "bool list \<Rightarrow> series \<Rightarrow> real \<Rightarrow> series" where
  "np_where conds xs c = map2 (\<lambda>b x. if b then x else Num c) conds xs"

subsection \<open>What the window routines of pandas see\<close>

text \<open>
  Before \<^verbatim>\<open>ewm(...).mean()\<close> or \<^verbatim>\<open>rolling(...).sum()\<close>, \<^verbatim>\<open>.mean()\<close>, \<^verbatim>\<open>.std()\<close>
  runs, pandas prepares the values (\<^verbatim>\<open>_prep_values\<close>): an infinity becomes NaN. The
  routine then sees a number or a missing value, here a \<open>real option\<close>, and its
  result, a number or NaN, goes back into the Series.
\<close>

fun prep_value :: "double \<Rightarrow> real option" where
  "prep_value (Num x) = Some x"
| "prep_value a = None"

fun of_option :: "real option \<Rightarrow> double" where
  "of_option None = NaN"
| "of_option (Some x) = Num x"

subsection \<open>Exponentially weighted mean\<close>

text \<open>
  \<^verbatim>\<open>s.ewm(..., adjust=False).mean()\<close> with pandas' defaults \<^verbatim>\<open>ignore_na=False\<close>,
  \<^verbatim>\<open>min_periods=0\<close>. The state of pandas' loop is the running average (missing until
  the first valid value) and the weight \<^verbatim>\<open>old_wt\<close> of that average, which decays over
  missing rows and is reset to 1 by a valid one.
\<close>

fun ewm_step :: "real \<Rightarrow> real option \<times> real \<Rightarrow> real option \<Rightarrow> real option \<times> real" where
  "ewm_step a (None, old_wt) None = (None, old_wt)"
| "ewm_step a (None, old_wt) (Some c) = (Some c, old_wt)"
| "ewm_step a (Some w, old_wt) None = (Some w, old_wt * (1 - a))"
| "ewm_step a (Some w, old_wt) (Some c) =
     (Some ((old_wt * (1 - a) * w + a * c) / (old_wt * (1 - a) + a)), 1)"

fun ewm_from :: "real \<Rightarrow> real option \<times> real \<Rightarrow> real option list \<Rightarrow> real option list" where
  "ewm_from a st [] = []"
| "ewm_from a st (x # xs) = (let st' = ewm_step a st x in fst st' # ewm_from a st' xs)"

definition ewma :: "real \<Rightarrow> real option list \<Rightarrow> real option list" where
  "ewma a xs = (case xs of [] \<Rightarrow> [] | x # rest \<Rightarrow> x # ewm_from a (x, 1) rest)"

definition ewm_mean :: "real \<Rightarrow> series \<Rightarrow> series" where
  "ewm_mean a xs = map of_option (ewma a (map prep_value xs))"

text \<open>The smoothing factor of \<^verbatim>\<open>span=s\<close> and of \<^verbatim>\<open>com=c\<close>.\<close>

definition alpha_span :: "nat \<Rightarrow> real" where
  "alpha_span s = 2 / (real s + 1)"

definition alpha_com :: "nat \<Rightarrow> real" where
  "alpha_com c = 1 / (1 + real c)"

subsection \<open>Rolling windows\<close>

text \<open>
  \<^verbatim>\<open>s.rolling(window=w)\<close> with the default \<^verbatim>\<open>min_periods = w\<close>: the value at row
  \<open>i\<close> aggregates rows \<open>i - w + 1 .. i\<close> and is NaN when fewer than \<open>w\<close> rows exist or
  one of them is missing. \<open>window_at\<close> is that window, if it is complete.
\<close>

definition window_at :: "nat \<Rightarrow> real option list \<Rightarrow> nat \<Rightarrow> real list option" where
  "window_at w xs i = (if Suc i < w then None else those (take w (drop (Suc i - w) xs)))"

definition rolling :: "nat \<Rightarrow> (real list \<Rightarrow> real) \<Rightarrow> series \<Rightarrow> series" where
  "rolling w f xs =
     map (\<lambda>i. of_option (map_option f (window_at w (map prep_value xs) i))) [0..<length xs]"

definition mean :: "real list \<Rightarrow> real" where
  "mean ws = sum_list ws / real (length ws)"

text \<open>\<^verbatim>\<open>.std()\<close>: the sample standard deviation (\<^verbatim>\<open>ddof=1\<close>).\<close>

definition std :: "real list \<Rightarrow> real" where
  "std ws = sqrt (sum_list (map (\<lambda>x. (x - mean ws)\<^sup>2) ws) / (real (length ws) - 1))"

subsection \<open>The columns\<close>

text \<open>One row of klines as \<^verbatim>\<open>fetch_binance_klines\<close> delivers it, reduced to the four
  columns it converts to float; the frame handed to \<^verbatim>\<open>compute_indicators\<close> is a list
  of them. The four input columns hold numbers (the exchange sends decimal strings),
  so NaN arises only inside the engine.\<close>

record kline =
  k_high :: real
  k_low :: real
  k_close :: real
  k_volume :: real

definition highs :: "kline list \<Rightarrow> series" where "highs df = map (\<lambda>k. Num (k_high k)) df"
definition lows :: "kline list \<Rightarrow> series" where "lows df = map (\<lambda>k. Num (k_low k)) df"
definition closes :: "kline list \<Rightarrow> series" where "closes df = map (\<lambda>k. Num (k_close k)) df"
definition volumes :: "kline list \<Rightarrow> series" where "volumes df = map (\<lambda>k. Num (k_volume k)) df"

definition EMA_fast_col :: "kline list \<Rightarrow> series" where
  "EMA_fast_col df = ewm_mean (alpha_span EMA_FAST) (closes df)"

definition EMA_slow_col :: "kline list \<Rightarrow> series" where
  "EMA_slow_col df = ewm_mean (alpha_span EMA_SLOW) (closes df)"

definition MACD_col :: "kline list \<Rightarrow> series" where
  "MACD_col df =
     (let ema_fast = ewm_mean (alpha_span MACD_FAST) (closes df);
          ema_slow = ewm_mean (alpha_span MACD_SLOW) (closes df)
      in s_sub ema_fast ema_slow)"

definition MACD_signal_col :: "kline list \<Rightarrow> series" where
  "MACD_signal_col df = ewm_mean (alpha_span MACD_SIGNAL) (MACD_col df)"

definition delta :: "kline list \<Rightarrow> series" where
  "delta df = s_diff (closes df)"

definition up :: "kline list \<Rightarrow> series" where
  "up df = clip_lower0 (delta df)"

definition down :: "kline list \<Rightarrow> series" where
  "down df = s_scale (- 1) (clip_upper0 (delta df))"

definition ma_up :: "kline list \<Rightarrow> series" where
  "ma_up df = ewm_mean (alpha_com (RSI_WINDOW - 1)) (up df)"

definition ma_down :: "kline list \<Rightarrow> series" where
  "ma_down df = ewm_mean (alpha_com (RSI_WINDOW - 1)) (down df)"

definition rs :: "kline list \<Rightarrow> series" where
  "rs df = s_div (ma_up df) (replace0_nan (ma_down df))"

text \<open>\<^verbatim>\<open>df["RSI"] = 100 - (100 / (1 + rs))\<close> followed by
  \<^verbatim>\<open>df["RSI"].fillna(50, inplace=True)\<close>: the fill acts on the column of the frame
  (pandas without copy-on-write, the versions that still accept
  \<^verbatim>\<open>fillna(method="bfill")\<close> on line 93).\<close>

definition RSI_col :: "kline list \<Rightarrow> series" where
  "RSI_col df = fillna 50 (s_const_minus 100 (s_const_div 100 (s_plus_const 1 (rs df))))"

definition tr0_col :: "kline list \<Rightarrow> series" where
  "tr0_col df = s_sub (highs df) (lows df)"

definition tr1_col :: "kline list \<Rightarrow> series" where
  "tr1_col df = s_abs (s_sub (highs df) (s_shift (closes df)))"

definition tr2_col :: "kline list \<Rightarrow> series" where
  "tr2_col df = s_abs (s_sub (lows df) (s_shift (closes df)))"

definition TR_col :: "kline list \<Rightarrow> series" where
  "TR_col df = rowmax3 (tr0_col df) (tr1_col df) (tr2_col df)"

definition plus_dm_col :: "kline list \<Rightarrow> series" where
  "plus_dm_col df =
     np_where (s_gt (s_sub (highs df) (s_shift (highs df))) (s_sub (s_shift (lows df)) (lows df)))
       (clip_lower0 (s_sub (highs df) (s_shift (highs df)))) 0"

definition minus_dm_col :: "kline list \<Rightarrow> series" where
  "minus_dm_col df =
     np_where (s_gt (s_sub (s_shift (lows df)) (lows df)) (s_sub (highs df) (s_shift (highs df))))
       (clip_lower0 (s_sub (s_shift (lows df)) (lows df))) 0"

definition TR_s_col :: "kline list \<Rightarrow> series" where
  "TR_s_col df = rolling ADX_WINDOW sum_list (TR_col df)"

definition plus_dm_s_col :: "kline list \<Rightarrow> series" where
  "plus_dm_s_col df = rolling ADX_WINDOW sum_list (plus_dm_col df)"

definition minus_dm_s_col :: "kline list \<Rightarrow> series" where
  "minus_dm_s_col df = rolling ADX_WINDOW sum_list (minus_dm_col df)"

definition plus_di_col :: "kline list \<Rightarrow> series" where
  "plus_di_col df = s_scale 100 (s_div (plus_dm_s_col df) (replace0_nan (TR_s_col df)))"

definition minus_di_col :: "kline list \<Rightarrow> series" where
  "minus_di_col df = s_scale 100 (s_div (minus_dm_s_col df) (replace0_nan (TR_s_col df)))"

definition DX_col :: "kline list \<Rightarrow> series" where
  "DX_col df =
     s_div (s_scale 100 (s_abs (s_sub (plus_di_col df) (minus_di_col df))))
           (replace0_nan (s_add (plus_di_col df) (minus_di_col df)))"

definition ADX_col :: "kline list \<Rightarrow> series" where
  "ADX_col df = fillna 0 (rolling ADX_WINDOW mean (DX_col df))"

definition sma :: "kline list \<Rightarrow> series" where
  "sma df = rolling BB_WINDOW mean (closes df)"

definition std_col :: "kline list \<Rightarrow> series" where
  "std_col df = rolling BB_WINDOW std (closes df)"

definition bb_upper_col :: "kline list \<Rightarrow> series" where
  "bb_upper_col df = s_add (sma df) (s_scale 2 (std_col df))"

definition bb_lower_col :: "kline list \<Rightarrow> series" where
  "bb_lower_col df = s_sub (sma df) (s_scale 2 (std_col df))"

definition vol_ma_col :: "kline list \<Rightarrow> series" where
  "vol_ma_col df = bfill (rolling VOL_WINDOW mean (volumes df))"

definition compute_indicators :: "kline list \<Rightarrow> frame" where
  "compute_indicators df =
     \<lparr>high = highs df, low = lows df, close = closes df, volume = volumes df,
      EMA_fast = EMA_fast_col df, EMA_slow = EMA_slow_col df,
      MACD = MACD_col df, MACD_signal = MACD_signal_col df,
      RSI = RSI_col df, ADX = ADX_col df,
      bb_upper = bb_upper_col df, bb_lower = bb_lower_col df,
      vol_ma = vol_ma_col df\<rparr>"

subsection \<open>Row access\<close>

datatype error = IndexError | FetchError

text \<open>\<^verbatim>\<open>df.iloc[i]\<close> for a row number \<open>i\<close> counted from the top, and
  \<^verbatim>\<open>df.iloc[-1]\<close>; both raise IndexError outside the frame.\<close>

definition iloc :: "frame \<Rightarrow> nat \<Rightarrow> error + row" where
  "iloc df i =
     (if i < length (close df) then
        Inr \<lparr>high = high df ! i, low = low df ! i, close = close df ! i,
             volume = volume df ! i,
             EMA_fast = EMA_fast df ! i, EMA_slow = EMA_slow df ! i,
             MACD = MACD df ! i, MACD_signal = MACD_signal df ! i,
             RSI = RSI df ! i, ADX = ADX df ! i,
             bb_upper = bb_upper df ! i, bb_lower = bb_lower df ! i,
             vol_ma = vol_ma df ! i\<rparr>
      else Inl IndexError)"

definition iloc_last :: "frame \<Rightarrow> error + row" where
  "iloc_last df = (if close df = [] then Inl IndexError else iloc df (length (close df) - 1))"

section \<open>The consensus aggregator\<close>






section \<open>Reference definitions and example inputs\<close>

text \<open>The recurrence of the specification for an exponential moving average with
  smoothing factor \<open>a\<close>: \<open>ema[0] = x[0]\<close>, \<open>ema[t] = a * x[t] + (1 - a) * ema[t - 1]\<close>.
  It is compared with the model of \<^verbatim>\<open>ewm(span=..., adjust=False).mean()\<close> below.\<close>

fun ema_rec :: "real \<Rightarrow> real list \<Rightarrow> nat \<Rightarrow> real" where
  "ema_rec a xs 0 = xs ! 0"
| "ema_rec a xs (Suc t) = a * xs ! Suc t + (1 - a) * ema_rec a xs t"

text \<open>The close-to-close changes of a frame, \<open>close[t + 1] - close[t]\<close>: the values of
  \<^verbatim>\<open>delta\<close> from row 1 on (row 0 of \<^verbatim>\<open>delta\<close> is NaN). \<open>gains\<close> and \<open>losses\<close> are
  their positive and negative parts, the values of \<^verbatim>\<open>up\<close> and \<^verbatim>\<open>down\<close> from row 1 on.\<close>

definition changes :: "kline list \<Rightarrow> real list" where
  "changes df = map (\<lambda>i. k_close (df ! Suc i) - k_close (df ! i)) [0..<length df - 1]"

definition gains :: "kline list \<Rightarrow> real list" where
  "gains df = map (max 0) (changes df)"

definition losses :: "kline list \<Rightarrow> real list" where
  "losses df = map (\<lambda>x. - 1 * min 0 x) (changes df)"

text \<open>The largest of the ADX, Bollinger and volume windows: the specification asks
  for \<open>max_window + 1\<close> rows.\<close>

definition max_window :: nat where
  "max_window = max ADX_WINDOW (max BB_WINDOW VOL_WINDOW)"

text \<open>The flat frame of the specification: \<open>n\<close> klines with close 100, high 101,
  low 99 and volume 10.\<close>

definition flat_klines :: "nat \<Rightarrow> kline list" where
  "flat_klines n = replicate n \<lparr>k_high = 101, k_low = 99, k_close = 100, k_volume = 10\<rparr>"

text \<open>A frame of \<open>n\<close> klines that rises by 1 from row to row.\<close>

definition rising_klines :: "nat \<Rightarrow> kline list" where
  "rising_klines n =
     map (\<lambda>i. \<lparr>k_high = real i + 101, k_low = real i + 99, k_close = real i + 100,
               k_volume = 10\<rparr>) [0..<n]"



text \<open>Twenty-eight klines: fourteen rows of the flat frame (no directional movement
  at all in rows 0 to 13), then fourteen rows in which high, low and close rise by 1
  from row to row.\<close>

definition adx_gap_klines :: "kline list" where
  "adx_gap_klines =
     flat_klines 14 @
     map (\<lambda>j. \<lparr>k_high = real j + 102, k_low = real j + 100, k_close = real j + 101,
               k_volume = 10\<rparr>) [0..<14]"

text \<open>Three klines with closes 100, 108, 92.\<close>

definition three_klines :: "kline list" where
  "three_klines =
     [\<lparr>k_high = 101, k_low = 99, k_close = 100, k_volume = 10\<rparr>,
      \<lparr>k_high = 109, k_low = 100, k_close = 108, k_volume = 12\<rparr>,
      \<lparr>k_high = 108, k_low = 90, k_close = 92, k_volume = 30\<rparr>]"

section \<open>Theorems\<close>

lemma fl_lt_asym: "fl_lt a b \<Longrightarrow> \<not> fl_lt b a"
  by (cases a; cases b) auto

lemma ema_exclusive: "\<not> (ema_buy r \<and> ema_sell r)"
  unfolding ema_buy_def ema_sell_def using fl_lt_asym by blast

lemma macd_exclusive: "\<not> (macd_buy r \<and> macd_sell r)"
  unfolding macd_buy_def macd_sell_def using fl_lt_asym by blast

subsection \<open>The signal evaluator\<close>

lemmas cond_defs = ema_buy_def ema_sell_def macd_buy_def macd_sell_def rsi_buy_def rsi_sell_def
  adx_ok_def vol_ok_def bb_buy_def bb_sell_def

text \<open>
  Claim C1. For every row, \<open>evaluate_conditions\<close> returns BUY exactly when all six BUY
  tests hold, SELL exactly when all six mirrored tests hold, and NEUTRAL in every
  other case; a row that passes five of the six BUY tests and fails the sixth gets
  NEUTRAL, whichever test it fails.
\<close>

theorem evaluate_conditions_rule:
  "(evaluate_conditions r = BUY \<longleftrightarrow>
      fl_lt (EMA_slow r) (EMA_fast r) \<and> fl_lt (MACD_signal r) (MACD r) \<and>
      (fl_le (Num RSI_BUY_MIN) (RSI r) \<and> fl_le (RSI r) (Num RSI_BUY_MAX)) \<and>
      fl_le (Num ADX_THRESHOLD) (ADX r) \<and> fl_le (vol_ma r) (volume r) \<and>
      fl_lt (bb_upper r) (close r)) \<and>
   (evaluate_conditions r = SELL \<longleftrightarrow>
      fl_lt (EMA_fast r) (EMA_slow r) \<and> fl_lt (MACD r) (MACD_signal r) \<and>
      (fl_le (Num RSI_SELL_MIN) (RSI r) \<and> fl_le (RSI r) (Num RSI_SELL_MAX)) \<and>
      fl_le (Num ADX_THRESHOLD) (ADX r) \<and> fl_le (vol_ma r) (volume r) \<and>
      fl_lt (close r) (bb_lower r)) \<and>
   (evaluate_conditions r = NEUTRAL \<longleftrightarrow>
      evaluate_conditions r \<noteq> BUY \<and> evaluate_conditions r \<noteq> SELL) \<and>
   (\<not> ema_buy r \<and> macd_buy r \<and> rsi_buy r \<and> adx_ok r \<and> vol_ok r \<and> bb_buy r
      \<longrightarrow> evaluate_conditions r = NEUTRAL) \<and>
   (ema_buy r \<and> \<not> macd_buy r \<and> rsi_buy r \<and> adx_ok r \<and> vol_ok r \<and> bb_buy r
      \<longrightarrow> evaluate_conditions r = NEUTRAL) \<and>
   (ema_buy r \<and> macd_buy r \<and> \<not> rsi_buy r \<and> adx_ok r \<and> vol_ok r \<and> bb_buy r
      \<longrightarrow> evaluate_conditions r = NEUTRAL) \<and>
   (ema_buy r \<and> macd_buy r \<and> rsi_buy r \<and> \<not> adx_ok r \<and> vol_ok r \<and> bb_buy r
      \<longrightarrow> evaluate_conditions r = NEUTRAL) \<and>
   (ema_buy r \<and> macd_buy r \<and> rsi_buy r \<and> adx_ok r \<and> \<not> vol_ok r \<and> bb_buy r
      \<longrightarrow> evaluate_conditions r = NEUTRAL) \<and>
   (ema_buy r \<and> macd_buy r \<and> rsi_buy r \<and> adx_ok r \<and> vol_ok r \<and> \<not> bb_buy r
      \<longrightarrow> evaluate_conditions r = NEUTRAL)"
proof -
  have ex1: "\<not> (ema_buy r \<and> ema_sell r)" by (rule ema_exclusive)
  have ex2: "\<not> (macd_buy r \<and> macd_sell r)" by (rule macd_exclusive)
  have b: "evaluate_conditions r = BUY \<longleftrightarrow>
      ema_buy r \<and> macd_buy r \<and> rsi_buy r \<and> adx_ok r \<and> vol_ok r \<and> bb_buy r"
    by (simp add: evaluate_conditions_def)
  have s: "evaluate_conditions r = SELL \<longleftrightarrow>
      ema_sell r \<and> macd_sell r \<and> rsi_sell r \<and> adx_ok r \<and> vol_ok r \<and> bb_sell r"
    using ex1 by (auto simp add: evaluate_conditions_def)
  have n: "evaluate_conditions r = NEUTRAL \<longleftrightarrow>
      evaluate_conditions r \<noteq> BUY \<and> evaluate_conditions r \<noteq> SELL"
    by (cases "evaluate_conditions r") simp_all
  show ?thesis
    using b s n ex1 ex2 unfolding cond_defs by blast
qed

theorem evaluate_conditions_rule_witness:
  "evaluate_conditions buy_row = BUY \<and> evaluate_conditions sell_row = SELL \<and>
   evaluate_conditions (buy_row\<lparr>EMA_fast := Num 9\<rparr>) = NEUTRAL \<and>
   evaluate_conditions (buy_row\<lparr>MACD := Num 1\<rparr>) = NEUTRAL \<and>
   evaluate_conditions (buy_row\<lparr>RSI := Num 66\<rparr>) = NEUTRAL \<and>
   evaluate_conditions (buy_row\<lparr>ADX := Num 24\<rparr>) = NEUTRAL \<and>
   evaluate_conditions (buy_row\<lparr>volume := Num 3\<rparr>) = NEUTRAL \<and>
   evaluate_conditions (buy_row\<lparr>close := Num 10\<rparr>) = NEUTRAL \<and>
   evaluate_conditions (buy_row\<lparr>bb_upper := NaN\<rparr>) = NEUTRAL"
  using evaluate_conditions_rule [of buy_row] evaluate_conditions_rule [of sell_row]
    evaluate_conditions_rule [of "buy_row\<lparr>EMA_fast := Num 9\<rparr>"]
    evaluate_conditions_rule [of "buy_row\<lparr>MACD := Num 1\<rparr>"]
    evaluate_conditions_rule [of "buy_row\<lparr>RSI := Num 66\<rparr>"]
    evaluate_conditions_rule [of "buy_row\<lparr>ADX := Num 24\<rparr>"]
    evaluate_conditions_rule [of "buy_row\<lparr>volume := Num 3\<rparr>"]
    evaluate_conditions_rule [of "buy_row\<lparr>close := Num 10\<rparr>"]
    evaluate_conditions_rule [of "buy_row\<lparr>bb_upper := NaN\<rparr>"]
  by (simp add: buy_row_def sell_row_def cond_defs RSI_BUY_MIN_def RSI_BUY_MAX_def
      RSI_SELL_MIN_def RSI_SELL_MAX_def ADX_THRESHOLD_def)

text \<open>
  Claim C10. The six BUY tests and the six SELL tests never hold together (the two
  strict EMA comparisons exclude each other), so testing SELL before BUY gives the
  same signal.
\<close>

theorem buy_sell_exclusive:
  "\<not> (list_all id [ema_buy r, macd_buy r, rsi_buy r, adx_ok r, vol_ok r, bb_buy r] \<and>
      list_all id [ema_sell r, macd_sell r, rsi_sell r, adx_ok r, vol_ok r, bb_sell r]) \<and>
   \<not> (fl_lt (EMA_slow r) (EMA_fast r) \<and> fl_lt (EMA_fast r) (EMA_slow r)) \<and>
   evaluate_conditions_sell_first r = evaluate_conditions r"
  using ema_exclusive [of r]
  by (auto simp add: evaluate_conditions_def evaluate_conditions_sell_first_def ema_buy_def ema_sell_def)

theorem buy_sell_exclusive_witness:
  "evaluate_conditions_sell_first buy_row = BUY \<and> evaluate_conditions_sell_first sell_row = SELL
   \<and> evaluate_conditions_sell_first (const_row 50) = NEUTRAL"
  using buy_sell_exclusive [of buy_row] buy_sell_exclusive [of sell_row] buy_sell_exclusive [of "const_row 50"]
  by (simp add: evaluate_conditions_def buy_row_def sell_row_def const_row_def cond_defs RSI_BUY_MIN_def RSI_BUY_MAX_def
      RSI_SELL_MIN_def RSI_SELL_MAX_def ADX_THRESHOLD_def)

subsection \<open>The consensus aggregator\<close>




lemma evaluate_neutral_if_ema_equal:
  "EMA_fast latest = EMA_slow latest \<Longrightarrow> evaluate_conditions latest = NEUTRAL"
  by (cases "EMA_slow latest") (simp_all add: evaluate_conditions_def ema_buy_def ema_sell_def)




subsection \<open>Exponential moving averages and MACD\<close>

lemma length_ewm_from [simp]: "length (ewm_from a st xs) = length xs"
  by (induction xs arbitrary: st) (simp_all add: Let_def)

lemma length_ewma [simp]: "length (ewma a xs) = length xs"
  by (simp add: ewma_def split: list.splits)

lemma length_ewm_mean [simp]: "length (ewm_mean a xs) = length xs"
  by (simp add: ewm_mean_def)

lemma ewm_step_Some1: "ewm_step a (Some w, 1) (Some c) = (Some (a * c + (1 - a) * w), 1)"
  by (simp add: algebra_simps)

lemma ewm_from_hd:
  "xs \<noteq> [] \<Longrightarrow> ewm_from a (Some w, 1) (map Some xs) ! 0 = Some (a * xs ! 0 + (1 - a) * w)"
  by (cases xs) (simp_all add: Let_def ewm_step_Some1 del: ewm_step.simps)

lemma ewm_from_rec:
  "Suc t < length xs \<Longrightarrow>
   \<exists>p. ewm_from a (Some w, 1) (map Some xs) ! t = Some p \<and>
       ewm_from a (Some w, 1) (map Some xs) ! Suc t = Some (a * xs ! Suc t + (1 - a) * p)"
proof (induction xs arbitrary: t w)
  case Nil
  then show ?case by simp
next
  case (Cons x xs)
  let ?w' = "a * x + (1 - a) * w"
  have unfold: "ewm_from a (Some w, 1) (map Some (x # xs)) =
      Some ?w' # ewm_from a (Some ?w', 1) (map Some xs)"
    by (simp add: Let_def ewm_step_Some1 del: ewm_step.simps)
  show ?case
  proof (cases t)
    case 0
    then have "xs \<noteq> []" using Cons.prems by auto
    from ewm_from_hd [OF this, of a ?w'] show ?thesis
      using 0 unfold by simp
  next
    case (Suc t')
    then have "Suc t' < length xs" using Cons.prems by simp
    from Cons.IH [OF this, of ?w'] show ?thesis
      using Suc unfold by simp
  qed
qed

lemma ewma_rec:
  "t < length xs \<Longrightarrow> ewma a (map Some xs) ! t = Some (ema_rec a xs t)"
proof (induction t)
  case 0
  then show ?case by (cases xs) (simp_all add: ewma_def)
next
  case (Suc t)
  then obtain x rest where xs: "xs = x # rest" by (cases xs) auto
  have m: "ewma a (map Some xs) = Some x # ewm_from a (Some x, 1) (map Some rest)"
    by (simp add: xs ewma_def)
  have prev: "ewma a (map Some xs) ! t = Some (ema_rec a xs t)"
    using Suc by simp
  show ?case
  proof (cases t)
    case 0
    have "rest \<noteq> []" using Suc.prems xs 0 by auto
    from ewm_from_hd [OF this, of a x] show ?thesis
      using 0 m xs by simp
  next
    case (Suc t')
    then have "Suc t' < length rest" using Suc.prems xs by simp
    from ewm_from_rec [OF this, of a x] obtain p where
      p: "ewm_from a (Some x, 1) (map Some rest) ! t' = Some p"
      "ewm_from a (Some x, 1) (map Some rest) ! Suc t' = Some (a * rest ! Suc t' + (1 - a) * p)"
      by blast
    have "p = ema_rec a xs t" using prev p(1) m Suc by simp
    then show ?thesis using p(2) m Suc xs by simp
  qed
qed

lemma prep_value_Num: "map prep_value (map Num xs) = map Some xs"
  by simp

lemma ewm_mean_rec:
  "t < length xs \<Longrightarrow> ewm_mean a (map Num xs) ! t = Num (ema_rec a xs t)"
  unfolding ewm_mean_def prep_value_Num using ewma_rec [of t xs a] by simp

lemma closes_map_Num: "closes df = map Num (map k_close df)"
  by (simp add: closes_def)

lemma ewm_mean_closes:
  "t < length df \<Longrightarrow> ewm_mean a (closes df) ! t = Num (ema_rec a (map k_close df) t)"
  unfolding closes_map_Num using ewm_mean_rec [of t "map k_close df" a] by simp

lemma length_closes [simp]: "length (closes df) = length df"
  by (simp add: closes_def)

lemma MACD_col_values:
  "MACD_col df = map Num (map (\<lambda>i. ema_rec (alpha_span MACD_FAST) (map k_close df) i -
                                     ema_rec (alpha_span MACD_SLOW) (map k_close df) i) [0..<length df])"
  by (rule nth_equalityI)
    (simp_all add: MACD_col_def s_sub_def ewm_mean_closes del: ema_rec.simps)

text \<open>
  Claim C7. At every row \<open>t\<close> of every frame, and for every span, the exponentially
  weighted mean of the closes is the recurrence \<open>ema[0] = close[0]\<close>,
  \<open>ema[t] = a * close[t] + (1 - a) * ema[t - 1]\<close> with \<open>a = 2 / (span + 1)\<close>; so are
  the columns EMA_fast and EMA_slow with their spans; MACD is the difference of the
  recurrences with the fast and the slow MACD span; MACD_signal is the same recurrence
  over the MACD values with the signal span.
\<close>

theorem ema_macd_definitions:
  "t < length df \<Longrightarrow>
   ewm_mean (alpha_span sp) (closes df) ! t = Num (ema_rec (2 / (real sp + 1)) (map k_close df) t) \<and>
   EMA_fast_col df ! t = Num (ema_rec (2 / (real EMA_FAST + 1)) (map k_close df) t) \<and>
   EMA_slow_col df ! t = Num (ema_rec (2 / (real EMA_SLOW + 1)) (map k_close df) t) \<and>
   MACD_col df ! t = Num (ema_rec (2 / (real MACD_FAST + 1)) (map k_close df) t -
                          ema_rec (2 / (real MACD_SLOW + 1)) (map k_close df) t) \<and>
   MACD_signal_col df ! t =
     Num (ema_rec (2 / (real MACD_SIGNAL + 1))
       (map (\<lambda>i. ema_rec (2 / (real MACD_FAST + 1)) (map k_close df) i -
                  ema_rec (2 / (real MACD_SLOW + 1)) (map k_close df) i) [0..<length df]) t)"
proof (intro conjI)
  assume t: "t < length df"
  show "ewm_mean (alpha_span sp) (closes df) ! t = Num (ema_rec (2 / (real sp + 1)) (map k_close df) t)"
    using t by (simp add: ewm_mean_closes alpha_span_def del: ema_rec.simps)
  show "EMA_fast_col df ! t = Num (ema_rec (2 / (real EMA_FAST + 1)) (map k_close df) t)"
    using t by (simp add: EMA_fast_col_def ewm_mean_closes alpha_span_def del: ema_rec.simps)
  show "EMA_slow_col df ! t = Num (ema_rec (2 / (real EMA_SLOW + 1)) (map k_close df) t)"
    using t by (simp add: EMA_slow_col_def ewm_mean_closes alpha_span_def del: ema_rec.simps)
  show "MACD_col df ! t = Num (ema_rec (2 / (real MACD_FAST + 1)) (map k_close df) t -
                               ema_rec (2 / (real MACD_SLOW + 1)) (map k_close df) t)"
    using t by (simp add: MACD_col_values alpha_span_def del: ema_rec.simps)
  show "MACD_signal_col df ! t =
           Num (ema_rec (2 / (real MACD_SIGNAL + 1))
             (map (\<lambda>i. ema_rec (2 / (real MACD_FAST + 1)) (map k_close df) i -
                        ema_rec (2 / (real MACD_SLOW + 1)) (map k_close df) i) [0..<length df]) t)"
    unfolding MACD_signal_col_def MACD_col_values
    using t by (subst ewm_mean_rec) (simp_all add: alpha_span_def del: ema_rec.simps)
qed

theorem ema_macd_definitions_witness:
  "(2::nat) < length three_klines \<and>
   EMA_fast_col three_klines ! 0 = Num 100 \<and>
   EMA_fast_col three_klines ! 1 = Num (1 / 4 * 108 + 3 / 4 * 100) \<and>
   EMA_fast_col three_klines ! 2 = Num (1 / 4 * 92 + 3 / 4 * 102) \<and>
   MACD_col three_klines ! 2 = Num (- (17920 / 123201)) \<and>
   MACD_signal_col three_klines ! 2 = Num (224896 / 3080025)"
  using ema_macd_definitions [of 2 three_klines EMA_FAST]
    ema_macd_definitions [of 1 three_klines EMA_FAST]
    ema_macd_definitions [of 0 three_klines EMA_FAST]
  by (simp add: three_klines_def EMA_FAST_def MACD_FAST_def MACD_SLOW_def MACD_SIGNAL_def
      numeral_2_eq_2 numeral_3_eq_3)

subsection \<open>Relative strength index\<close>

lemma ewma_None_Cons: "ewma a (None # xs) = None # ewma a xs"
proof (cases xs)
  case Nil
  then show ?thesis by (simp add: ewma_def)
next
  case (Cons x rest)
  have "ewm_step a (None, 1) x = (x, 1)" by (cases x) simp_all
  then show ?thesis by (simp add: ewma_def Cons Let_def)
qed

lemma ewm_mean_NaN_Cons: "ewm_mean a (NaN # xs) = NaN # ewm_mean a xs"
  by (simp add: ewm_mean_def ewma_None_Cons)

lemma ewm_mean_values: "ewm_mean a (map Num xs) = map Num (map (ema_rec a xs) [0..<length xs])"
  by (rule nth_equalityI) (simp_all add: ewm_mean_rec del: ema_rec.simps)

lemma length_s_shift [simp]: "length (s_shift xs) = length xs"
  by (simp add: s_shift_def)

lemma s_shift_nth_0: "xs \<noteq> [] \<Longrightarrow> s_shift xs ! 0 = NaN"
  by (simp add: s_shift_def)

lemma s_shift_nth_Suc: "Suc i < length xs \<Longrightarrow> s_shift xs ! Suc i = xs ! i"
  by (auto simp add: s_shift_def nth_butlast)

lemma delta_values: "df \<noteq> [] \<Longrightarrow> delta df = NaN # map Num (changes df)"
proof (rule nth_equalityI)
  assume ne: "df \<noteq> []"
  then show "length (delta df) = length (NaN # map Num (changes df))"
    by (cases df) (simp_all add: delta_def s_diff_def s_sub_def changes_def)
  fix i assume i: "i < length (delta df)"
  then have il: "i < length df" by (simp add: delta_def s_diff_def s_sub_def)
  show "delta df ! i = (NaN # map Num (changes df)) ! i"
  proof (cases i)
    case 0
    then show ?thesis using ne il
      by (simp add: delta_def s_diff_def s_sub_def s_shift_nth_0 closes_def)
  next
    case (Suc j)
    then have "Suc j < length (closes df)" using il by simp
    from s_shift_nth_Suc [OF this] show ?thesis using Suc il
      by (simp add: delta_def s_diff_def s_sub_def closes_def changes_def)
  qed
qed

lemma up_values: "df \<noteq> [] \<Longrightarrow> up df = NaN # map Num (gains df)"
  by (simp add: up_def delta_values clip_lower0_def gains_def)

lemma down_values: "df \<noteq> [] \<Longrightarrow> down df = NaN # map Num (losses df)"
  by (simp add: down_def delta_values clip_upper0_def s_scale_def losses_def)

lemma length_changes [simp]: "length (changes df) = length df - 1"
  by (simp add: changes_def)

lemma length_gains [simp]: "length (gains df) = length df - 1"
  by (simp add: gains_def)

lemma length_losses [simp]: "length (losses df) = length df - 1"
  by (simp add: losses_def)

lemma ma_up_values:
  "df \<noteq> [] \<Longrightarrow> ma_up df =
     NaN # map Num (map (ema_rec (alpha_com (RSI_WINDOW - 1)) (gains df)) [0..<length df - 1])"
  unfolding ma_up_def using ewm_mean_values [of "alpha_com (RSI_WINDOW - 1)" "gains df"]
  by (simp add: up_values ewm_mean_NaN_Cons)

lemma ma_down_values:
  "df \<noteq> [] \<Longrightarrow> ma_down df =
     NaN # map Num (map (ema_rec (alpha_com (RSI_WINDOW - 1)) (losses df)) [0..<length df - 1])"
  unfolding ma_down_def using ewm_mean_values [of "alpha_com (RSI_WINDOW - 1)" "losses df"]
  by (simp add: down_values ewm_mean_NaN_Cons)

lemma ema_rec_nonneg:
  "0 \<le> a \<Longrightarrow> a \<le> 1 \<Longrightarrow> \<forall>x \<in> set xs. 0 \<le> x \<Longrightarrow> t < length xs \<Longrightarrow> 0 \<le> ema_rec a xs t"
  by (induction t) simp_all

lemma alpha_com_range: "0 \<le> alpha_com c \<and> alpha_com c \<le> 1"
  by (simp add: alpha_com_def)

lemma gains_nonneg: "\<forall>x \<in> set (gains df). 0 \<le> x"
  by (simp add: gains_def)

lemma losses_nonneg: "\<forall>x \<in> set (losses df). 0 \<le> x"
  by (auto simp add: losses_def min_def)

lemma length_ma [simp]: "length (ma_up df) = length df" "length (ma_down df) = length df"
  by (simp_all add: ma_up_def ma_down_def up_def down_def delta_def s_diff_def s_sub_def
      clip_lower0_def clip_upper0_def s_scale_def)

text \<open>Row by row: what RSI is, from the two smoothed averages.\<close>

lemma RSI_col_nth:
  "t < length df \<Longrightarrow> RSI_col df ! t =
     (let q = d_sub (Num 100) (d_div (Num 100) (d_add (Num 1)
                (d_div (ma_up df ! t) (if ma_down df ! t = Num 0 then NaN else ma_down df ! t))))
      in if q = NaN then Num 50 else q)"
  by (simp add: RSI_col_def fillna_def s_const_minus_def s_const_div_def s_plus_const_def rs_def
      s_div_def replace0_nan_def Let_def)

lemma ma_nth_0: "df \<noteq> [] \<Longrightarrow> ma_up df ! 0 = NaN \<and> ma_down df ! 0 = NaN"
  by (simp add: ma_up_values ma_down_values)

lemma ma_nth_Suc:
  "Suc t < length df \<Longrightarrow>
   \<exists>u d. ma_up df ! Suc t = Num u \<and> ma_down df ! Suc t = Num d \<and> 0 \<le> u \<and> 0 \<le> d"
proof -
  assume t: "Suc t < length df"
  then have ne: "df \<noteq> []" by auto
  have lg: "t < length (gains df)" "t < length (losses df)"
    using t by simp_all
  have u: "ma_up df ! Suc t = Num (ema_rec (alpha_com (RSI_WINDOW - 1)) (gains df) t)"
    using t by (simp add: ma_up_values [OF ne] del: ema_rec.simps)
  have d: "ma_down df ! Suc t = Num (ema_rec (alpha_com (RSI_WINDOW - 1)) (losses df) t)"
    using t by (simp add: ma_down_values [OF ne] del: ema_rec.simps)
  have "0 \<le> ema_rec (alpha_com (RSI_WINDOW - 1)) (gains df) t"
    using alpha_com_range gains_nonneg lg(1) by (intro ema_rec_nonneg) auto
  moreover have "0 \<le> ema_rec (alpha_com (RSI_WINDOW - 1)) (losses df) t"
    using alpha_com_range losses_nonneg lg(2) by (intro ema_rec_nonneg) auto
  ultimately show ?thesis using u d by simp
qed

lemma ma_cases:
  assumes "t < length df"
  obtains "ma_up df ! t = NaN" "ma_down df ! t = NaN"
  | u d where "ma_up df ! t = Num u" "ma_down df ! t = Num d" "0 \<le> u" "0 \<le> d"
proof (cases t)
  case 0
  then show ?thesis using assms ma_nth_0 [of df] that(1) by auto
next
  case (Suc j)
  then show ?thesis using assms ma_nth_Suc [of j df] that(2) by auto
qed

lemma rs_denominator_pos: "0 \<le> u \<Longrightarrow> 0 \<le> d \<Longrightarrow> 1 + u / d \<noteq> (0::real)"
proof -
  assume "0 \<le> u" "0 \<le> d"
  then have "0 \<le> u / d" by simp
  then show ?thesis by linarith
qed

text \<open>
  Claim C5. At every row of every frame: when the smoothed down-average \<open>ma_down\<close> is
  0, RSI is 50 (with a division by 0 it would be an infinity's 100, or the NaN of
  \<open>0 / 0\<close>); when it is a number other than 0, the smoothed up-average is a number
  too and RSI is \<open>100 - 100 / (1 + ma_up / ma_down)\<close>.
\<close>

theorem rsi_degeneracy_guard:
  "t < length df \<Longrightarrow>
   (ma_down df ! t = Num 0 \<longrightarrow> RSI (compute_indicators df) ! t = Num 50) \<and>
   (\<forall>d. ma_down df ! t = Num d \<and> d \<noteq> 0 \<longrightarrow>
      (\<exists>u. ma_up df ! t = Num u \<and>
           RSI (compute_indicators df) ! t = Num (100 - 100 / (1 + u / d))))"
proof -
  assume t: "t < length df"
  have R: "RSI (compute_indicators df) = RSI_col df" by (simp add: compute_indicators_def)
  from t show ?thesis
  proof (cases rule: ma_cases)
    case 1
    then show ?thesis by simp
  next
    case (2 u d)
    then show ?thesis using rs_denominator_pos [of u d]
      by (simp add: R RSI_col_nth [OF t])
  qed
qed

text \<open>The guard does the work: at row 1 of \<open>three_klines\<close> the up-average is 8 and
  the down-average 0, so the quotient without \<^verbatim>\<open>replace(0, np.nan)\<close> is an infinity
  (and RSI would be 100); with it the quotient is NaN, which \<^verbatim>\<open>fillna(50)\<close> fills.\<close>

lemma rs_guard_at_work:
  "s_div (ma_up three_klines) (ma_down three_klines) ! 1 = PInf"
  "s_div (ma_up three_klines) (replace0_nan (ma_down three_klines)) ! 1 = NaN"
  "s_const_minus 100 (s_const_div 100 (s_plus_const 1
     (s_div (ma_up three_klines) (ma_down three_klines)))) ! 1 = Num 100"
  by code_simp+

lemma three_klines_ma:
  "ma_down three_klines ! 1 = Num 0" "ma_down three_klines ! 2 = Num (16 / 7)"
  "ma_up three_klines ! 2 = Num (48 / 7)"
  by code_simp+

theorem rsi_degeneracy_guard_witness:
  "(2::nat) < length three_klines \<and>
   ma_down three_klines ! 1 = Num 0 \<and>
   RSI (compute_indicators three_klines) ! 1 = Num 50 \<and>
   ma_down three_klines ! 2 = Num (16 / 7) \<and>
   ma_up three_klines ! 2 = Num (48 / 7) \<and>
   RSI (compute_indicators three_klines) ! 2 = Num (100 - 100 / (1 + (48 / 7) / (16 / 7)))"
proof -
  have len: "(2::nat) < length three_klines" "(1::nat) < length three_klines"
    by (simp_all add: three_klines_def)
  have r1: "RSI (compute_indicators three_klines) ! 1 = Num 50"
    using rsi_degeneracy_guard [OF len(2)] three_klines_ma(1) by simp
  have g: "ma_down three_klines ! 2 = Num (16 / 7) \<and> (16 / 7 :: real) \<noteq> 0 \<longrightarrow>
      (\<exists>u. ma_up three_klines ! 2 = Num u \<and>
           RSI (compute_indicators three_klines) ! 2 = Num (100 - 100 / (1 + u / (16 / 7))))"
    using rsi_degeneracy_guard [OF len(1)] by blast
  have nz: "(16 / 7 :: real) \<noteq> 0" by simp
  from g three_klines_ma(2) nz obtain u where
    u: "ma_up three_klines ! 2 = Num u"
       "RSI (compute_indicators three_klines) ! 2 = Num (100 - 100 / (1 + u / (16 / 7)))"
    by blast
  have "u = 48 / 7" using u(1) three_klines_ma(3) by simp
  then have r2: "RSI (compute_indicators three_klines) ! 2 = Num (100 - 100 / (1 + (48 / 7) / (16 / 7)))"
    using u(2) by simp
  show ?thesis using len(1) three_klines_ma r1 r2 by simp
qed

lemma RSI_col_set:
  "\<forall>v \<in> set (RSI_col df). \<exists>r. v = Num r \<and> 0 \<le> r \<and> r \<le> 100"
proof
  fix v assume "v \<in> set (RSI_col df)"
  then obtain t where t: "t < length (RSI_col df)" "v = RSI_col df ! t"
    by (auto simp add: in_set_conv_nth)
  have lt: "t < length df"
    using t(1) by (simp add: RSI_col_def fillna_def s_const_minus_def s_const_div_def
        s_plus_const_def rs_def s_div_def replace0_nan_def)
  show "\<exists>r. v = Num r \<and> 0 \<le> r \<and> r \<le> 100"
  using lt proof (cases rule: ma_cases)
    case 1
    then show ?thesis by (simp add: t(2) RSI_col_nth [OF lt])
  next
    case (2 u d)
    show ?thesis
    proof (cases "d = 0")
      case True
      then show ?thesis using 2 by (simp add: t(2) RSI_col_nth [OF lt])
    next
      case False
      have q: "0 \<le> u / d" using 2 by simp
      then have pos: "1 \<le> 1 + u / d" by simp
      then have "0 \<le> 100 / (1 + u / d)" by simp
      moreover have "100 / (1 + u / d) \<le> 100"
        using pos by (simp add: divide_le_eq)
      ultimately show ?thesis using 2 False rs_denominator_pos [of u d]
        by (simp add: t(2) RSI_col_nth [OF lt])
    qed
  qed
qed

text \<open>
  Claim C9. Every value of the RSI column that \<open>compute_indicators\<close> returns, at every
  row of every frame, is a number between 0 and 100.
\<close>

theorem rsi_range:
  "length (RSI (compute_indicators df)) = length df \<and>
   (\<forall>v \<in> set (RSI (compute_indicators df)). \<exists>r. v = Num r \<and> 0 \<le> r \<and> r \<le> 100)"
  using RSI_col_set [of df]
  by (simp add: compute_indicators_def RSI_col_def fillna_def s_const_minus_def s_const_div_def
        s_plus_const_def rs_def s_div_def replace0_nan_def)

lemma three_klines_RSI: "RSI_col three_klines = [Num 50, Num 50, Num 75]"
  by code_simp

theorem rsi_range_witness:
  "RSI (compute_indicators three_klines) = [Num 50, Num 50, Num 75] \<and>
   (\<exists>r. RSI (compute_indicators three_klines) ! 2 = Num r \<and> 0 \<le> r \<and> r \<le> 100)"
proof -
  have v: "RSI (compute_indicators three_klines) = [Num 50, Num 50, Num 75]"
    by (simp add: compute_indicators_def three_klines_RSI)
  then have "RSI (compute_indicators three_klines) ! 2 \<in> set (RSI (compute_indicators three_klines))"
    by simp
  then have "\<exists>r. RSI (compute_indicators three_klines) ! 2 = Num r \<and> 0 \<le> r \<and> r \<le> 100"
    using rsi_range [of three_klines] by blast
  then show ?thesis using v by simp
qed

subsection \<open>Rolling windows\<close>

lemma length_rolling [simp]: "length (rolling w f xs) = length xs"
  by (simp add: rolling_def)

lemma rolling_nth:
  "i < length xs \<Longrightarrow>
   rolling w f xs ! i = of_option (map_option f (window_at w (map prep_value xs) i))"
  by (simp add: rolling_def)

lemma those_map_Some: "those (map Some ys) = Some ys"
  by (induction ys) simp_all

lemma window_at_defined:
  "w \<le> Suc i \<Longrightarrow> window_at w (map Some vs) i = Some (take w (drop (Suc i - w) vs))"
proof -
  assume w: "w \<le> Suc i"
  have "take w (drop (Suc i - w) (map Some vs)) = map Some (take w (drop (Suc i - w) vs))"
    by (simp add: take_map drop_map)
  then show ?thesis using w by (simp add: window_at_def those_map_Some)
qed

lemma window_length:
  "w \<le> Suc i \<Longrightarrow> i < length vs \<Longrightarrow> length (take w (drop (Suc i - w) vs)) = w"
  by simp

lemma rolling_defined:
  "w \<le> Suc i \<Longrightarrow> i < length vs \<Longrightarrow>
   rolling w f (map Num vs) ! i = Num (f (take w (drop (Suc i - w) vs)))"
  using window_at_defined [of w i vs]
  by (simp add: rolling_nth prep_value_Num del: map_map)

lemma rolling_short: "Suc i < w \<Longrightarrow> i < length xs \<Longrightarrow> rolling w f xs ! i = NaN"
  by (simp add: rolling_nth window_at_def)

text \<open>A constant column.\<close>

lemma ema_rec_replicate: "t < n \<Longrightarrow> ema_rec a (replicate n c) t = c"
  by (induction t) (simp_all add: algebra_simps)

lemma window_replicate:
  "w \<le> Suc i \<Longrightarrow> i < n \<Longrightarrow> take w (drop (Suc i - w) (replicate n c)) = replicate w c"
  by (simp add: min_def)

lemma mean_replicate: "0 < w \<Longrightarrow> mean (replicate w c) = c"
  by (simp add: mean_def sum_list_replicate)

lemma std_replicate: "0 < w \<Longrightarrow> std (replicate w c) = 0"
  by (simp add: std_def mean_replicate sum_list_replicate)

lemma flat_closes:
  "\<forall>k \<in> set df. k_close k = c \<Longrightarrow> map k_close df = replicate (length df) c"
  by (induction df) simp_all

subsection \<open>Flat prices\<close>

lemma d_div_NaN_right [simp]: "d_div a NaN = NaN"
  by (cases a) simp_all

lemma iloc_last_compute:
  "df \<noteq> [] \<Longrightarrow> iloc_last (compute_indicators df) =
     Inr \<lparr>high = highs df ! (length df - 1), low = lows df ! (length df - 1),
          close = closes df ! (length df - 1), volume = volumes df ! (length df - 1),
          EMA_fast = EMA_fast_col df ! (length df - 1),
          EMA_slow = EMA_slow_col df ! (length df - 1),
          MACD = MACD_col df ! (length df - 1),
          MACD_signal = MACD_signal_col df ! (length df - 1),
          RSI = RSI_col df ! (length df - 1), ADX = ADX_col df ! (length df - 1),
          bb_upper = bb_upper_col df ! (length df - 1),
          bb_lower = bb_lower_col df ! (length df - 1),
          vol_ma = vol_ma_col df ! (length df - 1)\<rparr>"
  by (simp add: iloc_last_def iloc_def compute_indicators_def closes_def)

lemma flat_closes_Num:
  "\<forall>k \<in> set df. k_close k = c \<Longrightarrow> closes df = map Num (replicate (length df) c)"
  using flat_closes [of df c] by (simp add: closes_map_Num)

lemma flat_ewm:
  assumes "\<forall>k \<in> set df. k_close k = c" "t < length df"
  shows "ewm_mean a (closes df) ! t = Num c"
  using assms(2) by (simp add: ewm_mean_closes flat_closes [OF assms(1)] ema_rec_replicate del: ema_rec.simps)

lemma flat_MACD:
  assumes "\<forall>k \<in> set df. k_close k = c" "t < length df"
  shows "MACD_col df ! t = Num 0"
  using assms(2) by (simp add: MACD_col_values flat_closes [OF assms(1)] ema_rec_replicate del: ema_rec.simps)

lemma flat_losses:
  assumes "\<forall>k \<in> set df. k_close k = c"
  shows "losses df = replicate (length df - 1) 0"
proof -
  have "changes df = replicate (length df - 1) 0"
  proof (rule nth_equalityI)
    show "length (changes df) = length (replicate (length df - 1) (0::real))" by simp
    fix i assume "i < length (changes df)"
    then have i': "i < length df - 1" by simp
    then have i: "Suc i < length df" by simp
    then have "k_close (df ! Suc i) = c" "k_close (df ! i) = c"
      using assms by simp_all
    then show "changes df ! i = replicate (length df - 1) 0 ! i"
      using i i' by (simp add: changes_def)
  qed
  then show ?thesis by (simp add: losses_def)
qed

lemma flat_RSI:
  assumes "\<forall>k \<in> set df. k_close k = c" "t < length df"
  shows "RSI_col df ! t = Num 50"
proof (cases t)
  case 0
  then have "df \<noteq> []" using assms(2) by auto
  from ma_nth_0 [OF this] show ?thesis using 0 RSI_col_nth [OF assms(2)] by simp
next
  case (Suc j)
  then have ne: "df \<noteq> []" and j: "j < length df - 1" using assms(2) by auto
  have "ma_down df ! t = Num 0"
    using j Suc by (simp add: ma_down_values [OF ne] flat_losses [OF assms(1)] ema_rec_replicate
        del: ema_rec.simps)
  then show ?thesis using RSI_col_nth [OF assms(2)] by simp
qed

lemma flat_bands:
  assumes "\<forall>k \<in> set df. k_close k = c" "t < length df" "BB_WINDOW \<le> Suc t"
  shows "bb_upper_col df ! t = Num c" "bb_lower_col df ! t = Num c"
proof -
  have w: "0 < BB_WINDOW" by (simp add: BB_WINDOW_def)
  have t': "t < length (replicate (length df) c)" using assms(2) by simp
  have m: "sma df ! t = Num c"
    unfolding sma_def flat_closes_Num [OF assms(1)]
    using rolling_defined [OF assms(3) t', of mean] window_replicate [OF assms(3) assms(2), of c]
    by (simp add: mean_replicate [OF w])
  have s: "std_col df ! t = Num 0"
    unfolding std_col_def flat_closes_Num [OF assms(1)]
    using rolling_defined [OF assms(3) t', of std] window_replicate [OF assms(3) assms(2), of c]
    by (simp add: std_replicate [OF w])
  show "bb_upper_col df ! t = Num c"
    using assms(2) m s by (simp add: bb_upper_col_def s_add_def s_scale_def sma_def std_col_def)
  show "bb_lower_col df ! t = Num c"
    using assms(2) m s by (simp add: bb_lower_col_def s_sub_def s_scale_def sma_def std_col_def)
qed

text \<open>
  Claim C4. In a frame of at least \<open>max_window + 1\<close> rows whose close is the same
  number \<open>c\<close> in every row (whatever \<open>c\<close> is, and whatever the other columns hold),
  the last row has EMA_fast = EMA_slow = \<open>c\<close>, MACD = 0, RSI = 50 and
  bb_upper = bb_lower = \<open>c\<close>; neither \<open>close > bb_upper\<close> nor \<open>close < bb_lower\<close>
  holds, and the signal is NEUTRAL.
\<close>

theorem flat_price_invariant:
  assumes "\<forall>k \<in> set df. k_close k = c" and "max_window + 1 \<le> length df"
  shows "\<exists>latest. iloc_last (compute_indicators df) = Inr latest \<and>
           EMA_fast latest = Num c \<and> EMA_slow latest = Num c \<and> MACD latest = Num 0 \<and>
           RSI latest = Num 50 \<and> bb_upper latest = Num c \<and> bb_lower latest = Num c \<and>
           \<not> fl_lt (bb_upper latest) (close latest) \<and> \<not> fl_lt (close latest) (bb_lower latest) \<and>
           evaluate_conditions latest = NEUTRAL"
proof -
  let ?t = "length df - 1"
  have len: "21 \<le> length df"
    using assms(2) by (simp add: max_window_def ADX_WINDOW_def BB_WINDOW_def VOL_WINDOW_def)
  then have ne: "df \<noteq> []" and t: "?t < length df" and bw: "BB_WINDOW \<le> Suc ?t"
    by (auto simp add: BB_WINDOW_def)
  obtain latest where l: "iloc_last (compute_indicators df) = Inr latest"
    and f: "EMA_fast latest = EMA_fast_col df ! ?t" "EMA_slow latest = EMA_slow_col df ! ?t"
      "MACD latest = MACD_col df ! ?t" "RSI latest = RSI_col df ! ?t"
      "bb_upper latest = bb_upper_col df ! ?t" "bb_lower latest = bb_lower_col df ! ?t"
      "close latest = closes df ! ?t"
    using iloc_last_compute [OF ne] by simp
  have e1: "EMA_fast latest = Num c"
    using f(1) flat_ewm [OF assms(1) t] by (simp add: EMA_fast_col_def)
  have e2: "EMA_slow latest = Num c"
    using f(2) flat_ewm [OF assms(1) t] by (simp add: EMA_slow_col_def)
  have m: "MACD latest = Num 0" using f(3) flat_MACD [OF assms(1) t] by simp
  have r: "RSI latest = Num 50" using f(4) flat_RSI [OF assms(1) t] by simp
  have b: "bb_upper latest = Num c" "bb_lower latest = Num c"
    using f(5,6) flat_bands [OF assms(1) t bw] by simp_all
  have cl: "close latest = Num c"
    using f(7) t assms(1) by (simp add: closes_def)
  have n: "evaluate_conditions latest = NEUTRAL"
    using e1 e2 by (intro evaluate_neutral_if_ema_equal) simp
  show ?thesis using l e1 e2 m r b cl n by simp
qed

theorem flat_price_invariant_witness:
  "max_window + 1 \<le> length (flat_klines 100) \<and>
   (\<exists>latest. iloc_last (compute_indicators (flat_klines 100)) = Inr latest \<and>
      EMA_fast latest = Num 100 \<and> EMA_slow latest = Num 100 \<and> MACD latest = Num 0 \<and>
      RSI latest = Num 50 \<and> bb_upper latest = Num 100 \<and> bb_lower latest = Num 100 \<and>
      evaluate_conditions latest = NEUTRAL)"
proof -
  have h1: "\<forall>k \<in> set (flat_klines 100). k_close k = 100" by (simp add: flat_klines_def)
  have h2: "max_window + 1 \<le> length (flat_klines 100)"
    by (simp add: flat_klines_def max_window_def ADX_WINDOW_def BB_WINDOW_def VOL_WINDOW_def)
  from flat_price_invariant [OF h1 h2] show ?thesis using h2 by blast
qed

subsection \<open>Definedness of the last row\<close>

lemma length_bfill [simp]: "length (bfill xs) = length xs"
  by (induction xs rule: bfill.induct) simp_all

lemma bfill_keeps: "i < length xs \<Longrightarrow> xs ! i = Num v \<Longrightarrow> bfill xs ! i = Num v"
proof (induction xs arbitrary: i)
  case Nil
  then show ?case by simp
next
  case (Cons x xs)
  then show ?case by (cases x; cases i) simp_all
qed

lemma fillna_rolling_nth:
  "i < length xs \<Longrightarrow> \<exists>v. fillna c (rolling w f xs) ! i = Num v"
  by (cases "window_at w (map prep_value xs) i") (simp_all add: fillna_def rolling_nth)

lemma length_volumes [simp]: "length (volumes df) = length df"
  by (simp add: volumes_def)

lemma length_DX_col [simp]: "length (DX_col df) = length df"
  by (simp add: DX_col_def s_div_def s_scale_def s_abs_def s_sub_def s_add_def replace0_nan_def
      plus_di_col_def minus_di_col_def plus_dm_s_col_def minus_dm_s_col_def TR_s_col_def
      plus_dm_col_def minus_dm_col_def TR_col_def rowmax3_def np_where_def s_gt_def
      clip_lower0_def tr0_col_def tr1_col_def tr2_col_def highs_def lows_def)

lemma ADX_col_defined: "t < length df \<Longrightarrow> \<exists>v. ADX_col df ! t = Num v"
  unfolding ADX_col_def by (rule fillna_rolling_nth) simp

lemma bands_defined:
  assumes "t < length df" "BB_WINDOW \<le> Suc t"
  shows "\<exists>u l. bb_upper_col df ! t = Num u \<and> bb_lower_col df ! t = Num l"
proof -
  have t': "t < length (map k_close df)" using assms(1) by simp
  have m: "\<exists>m. sma df ! t = Num m"
    unfolding sma_def closes_map_Num using rolling_defined [OF assms(2) t'] by simp
  have s: "\<exists>s. std_col df ! t = Num s"
    unfolding std_col_def closes_map_Num using rolling_defined [OF assms(2) t'] by simp
  from m s show ?thesis
    using assms(1)
    by (auto simp add: bb_upper_col_def bb_lower_col_def s_add_def s_sub_def s_scale_def
        sma_def std_col_def)
qed

lemma vol_ma_defined:
  assumes "t < length df" "VOL_WINDOW \<le> Suc t"
  shows "vol_ma_col df ! t = Num (mean (take VOL_WINDOW (drop (Suc t - VOL_WINDOW) (map k_volume df))))"
proof -
  have v: "volumes df = map Num (map k_volume df)" by (simp add: volumes_def)
  have t': "t < length (map k_volume df)" using assms(1) by simp
  have "rolling VOL_WINDOW mean (volumes df) ! t =
      Num (mean (take VOL_WINDOW (drop (Suc t - VOL_WINDOW) (map k_volume df))))"
    unfolding v using rolling_defined [OF assms(2) t'] by simp
  then show ?thesis
    unfolding vol_ma_col_def using assms(1) by (intro bfill_keeps) simp_all
qed

lemma MACD_signal_defined: "t < length df \<Longrightarrow> \<exists>v. MACD_signal_col df ! t = Num v"
  unfolding MACD_signal_col_def MACD_col_values
  by (subst ewm_mean_rec) simp_all

text \<open>
  Claim C6. For a frame of exactly \<open>max_window + 1\<close> rows, \<open>compute_indicators\<close>
  returns a frame (the model has no failing branch: no step of the source raises on
  numeric columns), its last row exists, and every field of that row that the
  evaluator reads is a number: neither NaN nor an infinity.
\<close>

theorem defined_at_minimum_length:
  assumes "length df = max_window + 1"
  shows "\<exists>latest. iloc_last (compute_indicators df) = Inr latest \<and>
           (\<exists>v. EMA_fast latest = Num v) \<and> (\<exists>v. EMA_slow latest = Num v) \<and> (\<exists>v. MACD latest = Num v) \<and>
           (\<exists>v. MACD_signal latest = Num v) \<and> (\<exists>v. RSI latest = Num v) \<and> (\<exists>v. ADX latest = Num v) \<and>
           (\<exists>v. bb_upper latest = Num v) \<and> (\<exists>v. bb_lower latest = Num v) \<and> (\<exists>v. vol_ma latest = Num v) \<and>
           (\<exists>v. close latest = Num v) \<and> (\<exists>v. volume latest = Num v)"
proof -
  let ?t = "length df - 1"
  have len: "length df = 21"
    using assms by (simp add: max_window_def ADX_WINDOW_def BB_WINDOW_def VOL_WINDOW_def)
  then have ne: "df \<noteq> []" and t: "?t < length df"
    and bw: "BB_WINDOW \<le> Suc ?t" and vw: "VOL_WINDOW \<le> Suc ?t"
    by (auto simp add: BB_WINDOW_def VOL_WINDOW_def)
  obtain latest where l: "iloc_last (compute_indicators df) = Inr latest"
    and f: "EMA_fast latest = EMA_fast_col df ! ?t" "EMA_slow latest = EMA_slow_col df ! ?t"
      "MACD latest = MACD_col df ! ?t" "MACD_signal latest = MACD_signal_col df ! ?t"
      "RSI latest = RSI_col df ! ?t" "ADX latest = ADX_col df ! ?t"
      "bb_upper latest = bb_upper_col df ! ?t" "bb_lower latest = bb_lower_col df ! ?t"
      "vol_ma latest = vol_ma_col df ! ?t"
      "close latest = closes df ! ?t" "volume latest = volumes df ! ?t"
    using iloc_last_compute [OF ne] by simp
  have "(\<exists>v. EMA_fast latest = Num v)"
    using f(1) ewm_mean_closes [OF t] by (simp add: EMA_fast_col_def)
  moreover have "(\<exists>v. EMA_slow latest = Num v)"
    using f(2) ewm_mean_closes [OF t] by (simp add: EMA_slow_col_def)
  moreover have "(\<exists>v. MACD latest = Num v)"
    using f(3) t by (simp add: MACD_col_values del: ema_rec.simps)
  moreover have "(\<exists>v. MACD_signal latest = Num v)"
    using f(4) MACD_signal_defined [OF t] by auto
  moreover have "(\<exists>v. RSI latest = Num v)"
  proof -
    have "RSI_col df ! ?t \<in> set (RSI_col df)"
      using t by (intro nth_mem) (simp add: RSI_col_def fillna_def s_const_minus_def
          s_const_div_def s_plus_const_def rs_def s_div_def replace0_nan_def)
    then show ?thesis using f(5) RSI_col_set [of df] by auto
  qed
  moreover have "(\<exists>v. ADX latest = Num v)"
    using f(6) ADX_col_defined [OF t] by auto
  moreover have "(\<exists>v. bb_upper latest = Num v)" "(\<exists>v. bb_lower latest = Num v)"
    using f(7,8) bands_defined [OF t bw] by auto
  moreover have "(\<exists>v. vol_ma latest = Num v)"
    using f(9) vol_ma_defined [OF t vw] by simp
  moreover have "(\<exists>v. close latest = Num v)" "(\<exists>v. volume latest = Num v)"
    using f(10,11) t by (simp_all add: closes_def volumes_def)
  ultimately show ?thesis using l by blast
qed

theorem defined_at_minimum_length_witness:
  "length (rising_klines 21) = max_window + 1 \<and>
   (\<exists>latest. iloc_last (compute_indicators (rising_klines 21)) = Inr latest \<and>
      (\<exists>v. EMA_fast latest = Num v) \<and> (\<exists>v. EMA_slow latest = Num v) \<and> (\<exists>v. MACD latest = Num v) \<and>
      (\<exists>v. MACD_signal latest = Num v) \<and> (\<exists>v. RSI latest = Num v) \<and> (\<exists>v. ADX latest = Num v) \<and>
      (\<exists>v. bb_upper latest = Num v) \<and> (\<exists>v. bb_lower latest = Num v) \<and> (\<exists>v. vol_ma latest = Num v))"
proof -
  have h: "length (rising_klines 21) = max_window + 1"
    by (simp add: rising_klines_def max_window_def ADX_WINDOW_def BB_WINDOW_def VOL_WINDOW_def)
  from defined_at_minimum_length [OF h] show ?thesis using h by blast
qed

subsection \<open>Lookahead\<close>







text \<open>Every step of the engine but the backward fill commutes with cutting the frame
  after a row.\<close>

lemma take_map2: "take n (map2 f xs ys) = map2 f (take n xs) (take n ys)"
  by (simp add: take_map take_zip)























subsection \<open>Average directional index\<close>

lemma adx_gap_TR_s: "TR_s_col adx_gap_klines = replicate 13 NaN @ replicate 15 (Num 28)"
  by code_simp

lemma adx_gap_plus_dm_s:
  "plus_dm_s_col adx_gap_klines = replicate 13 NaN @
     [Num 0, Num 1, Num 2, Num 3, Num 4, Num 5, Num 6, Num 7, Num 8, Num 9, Num 10,
      Num 11, Num 12, Num 13, Num 14]"
  by code_simp

lemma adx_gap_minus_dm_s:
  "minus_dm_s_col adx_gap_klines = replicate 13 NaN @ replicate 15 (Num 0)"
  by code_simp

lemma adx_gap_plus_di:
  "plus_di_col adx_gap_klines = replicate 13 NaN @
     [Num 0, Num (100 / 28), Num (200 / 28), Num (300 / 28), Num (400 / 28), Num (500 / 28),
      Num (600 / 28), Num (700 / 28), Num (800 / 28), Num (900 / 28), Num (1000 / 28),
      Num (1100 / 28), Num (1200 / 28), Num (1300 / 28), Num (1400 / 28)]"
  unfolding plus_di_col_def adx_gap_TR_s adx_gap_plus_dm_s by code_simp

lemma adx_gap_minus_di:
  "minus_di_col adx_gap_klines = replicate 13 NaN @ replicate 15 (Num 0)"
  unfolding minus_di_col_def adx_gap_TR_s adx_gap_minus_dm_s by code_simp

lemma adx_gap_DX:
  "DX_col adx_gap_klines = replicate 14 NaN @ replicate 14 (Num 100)"
  unfolding DX_col_def adx_gap_plus_di adx_gap_minus_di by code_simp

lemma adx_gap_ADX: "ADX_col adx_gap_klines = replicate 27 (Num 0) @ [Num 100]"
  unfolding ADX_col_def adx_gap_DX by code_simp


text \<open>In \<open>adx_gap_klines\<close> both directional indices are 0 at row 13, so DX is NaN
  there; DX is 100 in rows 14 to 26. The mean of the window of row 26 with row 13
  counted as 0 would be 650 / 7; the ADX of row 26 is 0.\<close>

theorem adx_gap_counterexample:
  "plus_di_col adx_gap_klines ! 13 = Num 0 \<and> minus_di_col adx_gap_klines ! 13 = Num 0 \<and>
   DX_col adx_gap_klines ! 13 = NaN \<and>
   take 13 (drop 14 (DX_col adx_gap_klines)) = replicate 13 (Num 100) \<and>
   ADX (compute_indicators adx_gap_klines) ! 26 = Num 0 \<and>
   ADX (compute_indicators adx_gap_klines) ! 26 \<noteq> Num (mean (0 # replicate 13 100))"
proof -
  have "plus_di_col adx_gap_klines ! 13 = Num 0" "minus_di_col adx_gap_klines ! 13 = Num 0"
    unfolding adx_gap_plus_di adx_gap_minus_di by (simp_all add: nth_append)
  moreover have "DX_col adx_gap_klines ! 13 = NaN"
    unfolding adx_gap_DX by (simp add: nth_append)
  moreover have "take 13 (drop 14 (DX_col adx_gap_klines)) = replicate 13 (Num 100)"
    unfolding adx_gap_DX by simp
  moreover have a: "ADX (compute_indicators adx_gap_klines) ! 26 = Num 0"
    by (simp add: compute_indicators_def adx_gap_ADX nth_append)
  moreover have "mean (0 # replicate 13 100) = 650 / 7"
    by (simp add: mean_def sum_list_replicate)
  ultimately show ?thesis by simp
qed

lemma those_None: "None \<in> set xs \<Longrightarrow> those xs = None"
  by (induction xs) (auto split: option.splits)

lemma window_at_gap:
  assumes "j \<le> t" "t < j + w" "t < length xs" "xs ! j = None"
  shows "window_at w xs t = None"
proof (cases "Suc t < w")
  case True
  then show ?thesis by (simp add: window_at_def)
next
  case False
  let ?k = "Suc t - w"
  have k: "?k \<le> j" "j - ?k < w" "?k + (j - ?k) = j" using assms(1,2) False by arith+
  have "take w (drop ?k xs) ! (j - ?k) = xs ! j"
    using k assms(1,3) by simp
  moreover have "j - ?k < length (take w (drop ?k xs))"
    using k assms(1,3) by simp
  ultimately have "None \<in> set (take w (drop ?k xs))"
    using assms(4) by (metis nth_mem)
  then show ?thesis using False by (simp add: window_at_def those_None)
qed

lemma ADX_col_nth:
  "t < length df \<Longrightarrow> ADX_col df ! t =
     (case window_at ADX_WINDOW (map prep_value (DX_col df)) t of
        None \<Rightarrow> Num 0 | Some ws \<Rightarrow> Num (mean ws))"
  by (simp add: ADX_col_def fillna_def rolling_nth split: option.splits)

lemma length_di [simp]:
  "length (plus_di_col df) = length df" "length (minus_di_col df) = length df"
  by (simp_all add: plus_di_col_def minus_di_col_def s_scale_def s_div_def replace0_nan_def
      plus_dm_s_col_def minus_dm_s_col_def TR_s_col_def
      plus_dm_col_def minus_dm_col_def TR_col_def rowmax3_def np_where_def s_gt_def
      clip_lower0_def tr0_col_def tr1_col_def tr2_col_def s_sub_def s_abs_def highs_def lows_def)

lemma DX_undefined:
  "t < length df \<Longrightarrow> s_add (plus_di_col df) (minus_di_col df) ! t = Num 0 \<Longrightarrow>
   DX_col df ! t = NaN"
  by (simp add: DX_col_def s_div_def replace0_nan_def s_add_def s_scale_def s_abs_def s_sub_def)

text \<open>
  Claim C8, amended. At a row where \<open>(+DI) + (-DI) = 0\<close>, DX is NaN. ADX at row \<open>t\<close>
  is 0 when fewer than \<open>ADX_WINDOW\<close> rows exist up to \<open>t\<close> or when DX is NaN at one
  of the rows \<open>t - ADX_WINDOW + 1 .. t\<close>; when DX is a number at all of them, ADX is
  their sum divided by \<open>ADX_WINDOW\<close>.
\<close>

theorem adx_window_rule:
  assumes "t < length df"
  shows "(s_add (plus_di_col df) (minus_di_col df) ! t = Num 0 \<longrightarrow> DX_col df ! t = NaN) \<and>
         (Suc t < ADX_WINDOW \<longrightarrow> ADX (compute_indicators df) ! t = Num 0) \<and>
         (\<forall>j. j \<le> t \<and> t < j + ADX_WINDOW \<and> DX_col df ! j = NaN \<longrightarrow>
              ADX (compute_indicators df) ! t = Num 0) \<and>
         (\<forall>ws. ADX_WINDOW \<le> Suc t \<and>
               take ADX_WINDOW (drop (Suc t - ADX_WINDOW) (DX_col df)) = map Num ws \<longrightarrow>
               ADX (compute_indicators df) ! t = Num (sum_list ws / real ADX_WINDOW))"
proof (intro conjI allI impI)
  have A: "ADX (compute_indicators df) = ADX_col df" by (simp add: compute_indicators_def)
  show "DX_col df ! t = NaN" if "s_add (plus_di_col df) (minus_di_col df) ! t = Num 0"
    using DX_undefined [OF assms that] .
  show "ADX (compute_indicators df) ! t = Num 0" if "Suc t < ADX_WINDOW"
    using that by (simp add: A ADX_col_nth [OF assms] window_at_def)
  show "ADX (compute_indicators df) ! t = Num 0"
    if "j \<le> t \<and> t < j + ADX_WINDOW \<and> DX_col df ! j = NaN" for j
  proof -
    have "map prep_value (DX_col df) ! j = None" using that assms by simp
    then have "window_at ADX_WINDOW (map prep_value (DX_col df)) t = None"
      using that assms by (intro window_at_gap [of j]) simp_all
    then show ?thesis by (simp add: A ADX_col_nth [OF assms])
  qed
  show "ADX (compute_indicators df) ! t = Num (sum_list ws / real ADX_WINDOW)"
    if "ADX_WINDOW \<le> Suc t \<and>
        take ADX_WINDOW (drop (Suc t - ADX_WINDOW) (DX_col df)) = map Num ws" for ws
  proof -
    from that have e: "take ADX_WINDOW (drop (Suc t - ADX_WINDOW) (DX_col df)) = map Num ws"
      and le: "ADX_WINDOW \<le> Suc t" by simp_all
    have "take ADX_WINDOW (drop (Suc t - ADX_WINDOW) (map prep_value (DX_col df))) =
        map prep_value (take ADX_WINDOW (drop (Suc t - ADX_WINDOW) (DX_col df)))"
      by (simp add: take_map drop_map)
    also have "\<dots> = map Some ws" unfolding e by simp
    finally have w: "window_at ADX_WINDOW (map prep_value (DX_col df)) t = Some ws"
      using le by (simp add: window_at_def those_map_Some)
    have "length (take ADX_WINDOW (drop (Suc t - ADX_WINDOW) (DX_col df))) = ADX_WINDOW"
      using le assms by simp
    then have "length (map Num ws) = ADX_WINDOW" unfolding e .
    then have "length ws = ADX_WINDOW" by simp
    then show ?thesis using w by (simp add: A ADX_col_nth [OF assms] mean_def)
  qed
qed

theorem adx_window_rule_witness:
  "s_add (plus_di_col adx_gap_klines) (minus_di_col adx_gap_klines) ! 13 = Num 0 \<and>
   DX_col adx_gap_klines ! 13 = NaN \<and>
   ADX (compute_indicators adx_gap_klines) ! 12 = Num 0 \<and>
   ADX (compute_indicators adx_gap_klines) ! 26 = Num 0 \<and>
   take ADX_WINDOW (drop (Suc 27 - ADX_WINDOW) (DX_col adx_gap_klines)) =
     map Num (replicate 14 100) \<and>
   ADX (compute_indicators adx_gap_klines) ! 27 = Num (sum_list (replicate 14 100) / real ADX_WINDOW)"
proof -
  have len: "13 < length adx_gap_klines" "12 < length adx_gap_klines"
    "26 < length adx_gap_klines" "27 < length adx_gap_klines"
    by (simp_all add: adx_gap_klines_def flat_klines_def)
  have s: "s_add (plus_di_col adx_gap_klines) (minus_di_col adx_gap_klines) ! 13 = Num 0"
    unfolding adx_gap_plus_di adx_gap_minus_di by (simp add: s_add_def nth_append)
  have d: "DX_col adx_gap_klines ! 13 = NaN"
    using adx_window_rule [OF len(1)] s by blast
  have a12: "ADX (compute_indicators adx_gap_klines) ! 12 = Num 0"
    using adx_window_rule [OF len(2)] by (simp add: ADX_WINDOW_def)
  have "(13::nat) \<le> 26 \<and> 26 < 13 + ADX_WINDOW \<and> DX_col adx_gap_klines ! 13 = NaN"
    using d by (simp add: ADX_WINDOW_def)
  then have a26: "ADX (compute_indicators adx_gap_klines) ! 26 = Num 0"
    using adx_window_rule [OF len(3)] by blast
  have win: "take ADX_WINDOW (drop (Suc 27 - ADX_WINDOW) (DX_col adx_gap_klines)) =
     map Num (replicate 14 100)"
    unfolding adx_gap_DX by (simp add: ADX_WINDOW_def)
  then have "ADX_WINDOW \<le> Suc 27 \<and>
      take ADX_WINDOW (drop (Suc 27 - ADX_WINDOW) (DX_col adx_gap_klines)) =
      map Num (replicate 14 100)"
    by (simp add: ADX_WINDOW_def)
  then have a27: "ADX (compute_indicators adx_gap_klines) ! 27 =
      Num (sum_list (replicate 14 100) / real ADX_WINDOW)"
    using adx_window_rule [OF len(4)] by blast
  show ?thesis using s d a12 a26 win a27 by blast
qed

end
